theory Spec2Isabelle
  imports Complex_Main "HOL-Library.AList" "HOL-Library.Sublist"
begin

section \<open>JavaScript numbers\<close>

text \<open>
  A JavaScript number is NaN, an infinity, or a finite double. Finite doubles are kept
  as the rationals they denote and \<open>+\<close>, \<open>-\<close> on them are exact: the rounding of
  IEEE 754 arithmetic (and the overflow of a finite sum to Infinity) is not modelled,
  and \<open>-0\<close> is not told apart from \<open>0\<close> (budget.js only adds, subtracts and
  compares amounts, and \<open>-0\<close> and \<open>0\<close> compare equal).
\<close>

datatype jsnum = NaN | NegInf | Fin rat | PosInf

text \<open>
  The amount of a transaction and the value of a goal are numbers while a command
  runs; read back from data.json they are numbers or \<open>null\<close>.
\<close>

datatype jsval = Null | Num jsnum

text \<open>ToNumber: \<open>null\<close> converts to \<open>+0\<close>.\<close>

fun toNumber :: "jsval \<Rightarrow> jsnum" where
  "toNumber Null = Fin 0"
| "toNumber (Num n) = n"

fun isNaN :: "jsnum \<Rightarrow> bool" where
  "isNaN NaN = True"
| "isNaN _ = False"

text \<open>\<open>x + y\<close> on numbers.\<close>

fun js_add :: "jsnum \<Rightarrow> jsnum \<Rightarrow> jsnum" where
  "js_add NaN _ = NaN"
| "js_add _ NaN = NaN"
| "js_add PosInf NegInf = NaN"
| "js_add NegInf PosInf = NaN"
| "js_add PosInf _ = PosInf"
| "js_add _ PosInf = PosInf"
| "js_add NegInf _ = NegInf"
| "js_add _ NegInf = NegInf"
| "js_add (Fin a) (Fin b) = Fin (a + b)"

fun js_neg :: "jsnum \<Rightarrow> jsnum" where
  "js_neg NaN = NaN"
| "js_neg NegInf = PosInf"
| "js_neg PosInf = NegInf"
| "js_neg (Fin a) = Fin (- a)"

text \<open>\<open>x - y\<close> on numbers.\<close>

definition js_sub :: "jsnum \<Rightarrow> jsnum \<Rightarrow> jsnum" where
  "js_sub x y = js_add x (js_neg y)"

text \<open>\<open>x < y\<close> on numbers: false as soon as one side is NaN.\<close>

fun js_lt :: "jsnum \<Rightarrow> jsnum \<Rightarrow> bool" where
  "js_lt NaN _ = False"
| "js_lt _ NaN = False"
| "js_lt _ NegInf = False"
| "js_lt NegInf _ = True"
| "js_lt PosInf _ = False"
| "js_lt (Fin a) PosInf = True"
| "js_lt (Fin a) (Fin b) = (a < b)"

text \<open>\<open>x > y\<close> is \<open>y < x\<close>; \<open>x <= y\<close> is "not \<open>y < x\<close>" unless one side is NaN.\<close>

definition js_gt :: "jsnum \<Rightarrow> jsnum \<Rightarrow> bool" where
  "js_gt x y = js_lt y x"

definition js_le :: "jsnum \<Rightarrow> jsnum \<Rightarrow> bool" where
  "js_le x y = (\<not> isNaN x \<and> \<not> isNaN y \<and> \<not> js_lt y x)"

text \<open>ToBoolean on numbers: \<open>0\<close> and NaN are falsy.\<close>

definition truthy :: "jsnum \<Rightarrow> bool" where
  "truthy n = (n \<noteq> NaN \<and> n \<noteq> Fin 0)"


section \<open>Strings: toLowerCase, parseFloat, toString\<close>

text \<open>
  A string is a list of characters with codes below 256; the characters beyond are
  not modelled. \<open>toLowerCase\<close> is modelled on the ASCII letters: the code only asks
  whether its result is \<open>'income'\<close> or \<open>'expense'\<close>, and no other character
  lower-cases to a letter of these two words.
\<close>

definition lowerChar :: "char \<Rightarrow> char" where
  "lowerChar c =
     (case map_of (zip ''ABCDEFGHIJKLMNOPQRSTUVWXYZ'' ''abcdefghijklmnopqrstuvwxyz'') c of
        Some l \<Rightarrow> l
      | None \<Rightarrow> c)"

definition toLowerCase :: "string \<Rightarrow> string" where
  "toLowerCase s = map lowerChar s"

definition isDigit :: "char \<Rightarrow> bool" where
  "isDigit c = (c \<in> set ''0123456789'')"

text \<open>The value of a string of decimal digits.\<close>

definition digitsToNat :: "string \<Rightarrow> nat" where
  "digitsToNat s = foldl (\<lambda>a c. 10 * a + (of_char c - 48)) 0 s"

text \<open>
  The white space \<open>parseFloat\<close> skips at the start of its argument: TAB, LF, VT, FF,
  CR, the space and the no-break space.
\<close>

definition isWhiteSpace :: "char \<Rightarrow> bool" where
  "isWhiteSpace c = (of_char c \<in> {9, 10, 11, 12, 13, 32, 160 :: nat})"

fun signOf :: "string \<Rightarrow> rat \<times> string" where
  "signOf [] = (1, [])"
| "signOf (c # s) =
     (if c = CHR ''-'' then (- 1, s) else if c = CHR ''+'' then (1, s) else (1, c # s))"

text \<open>
  The exponent part that may follow the mantissa: \<open>e\<close> or \<open>E\<close>, a sign, digits. An
  \<open>e\<close> with no digit after it is not part of the number.
\<close>

definition exponentPart :: "string \<Rightarrow> int" where
  "exponentPart s =
     (case s of
        [] \<Rightarrow> 0
      | c # r \<Rightarrow>
          if c = CHR ''e'' \<or> c = CHR ''E'' then
            (case signOf r of
               (sg, r') \<Rightarrow>
                 let ds = takeWhile isDigit r' in
                 if ds = [] then 0
                 else if sg < 0 then - int (digitsToNat ds) else int (digitsToNat ds))
          else 0)"

definition pow10 :: "int \<Rightarrow> rat" where
  "pow10 e = (if 0 \<le> e then 10 ^ nat e else 1 / 10 ^ nat (- e))"

text \<open>
  The double a decimal value is read as: beyond the range of doubles it is an
  infinity, below half the least positive double it is \<open>0\<close>. In between the value is
  kept as it is (the rounding of the mantissa to 53 bits is not modelled).
\<close>

definition toDouble :: "rat \<Rightarrow> jsnum" where
  "toDouble q =
     (if 2 ^ 1024 - 2 ^ 970 \<le> q then PosInf
      else if q \<le> - (2 ^ 1024 - 2 ^ 970) then NegInf
      else if \<bar>q\<bar> \<le> 1 / 2 ^ 1075 then Fin 0
      else Fin q)"

text \<open>
  \<open>parseFloat\<close>: leading white space is skipped, then the longest prefix that is a
  decimal literal is read: a sign, then \<open>Infinity\<close> or digits with an optional
  fraction and exponent. What follows the literal is ignored; with no literal at all
  the result is NaN.
\<close>

definition parseFloat :: "string \<Rightarrow> jsnum" where
  "parseFloat input =
     (case signOf (dropWhile isWhiteSpace input) of
        (sign, s) \<Rightarrow>
          if take 8 s = ''Infinity'' then (if sign < 0 then NegInf else PosInf)
          else
            let intDigits = takeWhile isDigit s;
                afterInt = dropWhile isDigit s;
                hasDot = (afterInt \<noteq> [] \<and> hd afterInt = CHR ''.'');
                fracDigits = (if hasDot then takeWhile isDigit (tl afterInt) else []);
                rest = (if hasDot then dropWhile isDigit (tl afterInt) else afterInt)
            in if intDigits = [] \<and> fracDigits = [] then NaN
               else toDouble (sign * (of_nat (digitsToNat (intDigits @ fracDigits))
                                / 10 ^ length fracDigits) * pow10 (exponentPart rest)))"

text \<open>
  \<open>toString\<close> on the id of a transaction. An id is a reading of \<open>Date.now()\<close>, an
  integer far below \<open>10^21\<close>, where \<open>toString\<close> gives the decimal digits.
\<close>

fun natToString :: "nat \<Rightarrow> string" where
  "natToString n =
     (if n < 10 then [''0123456789'' ! n]
      else natToString (n div 10) @ [''0123456789'' ! (n mod 10)])"

declare natToString.simps [simp del]

definition toString :: "int \<Rightarrow> string" where
  "toString i = (if i < 0 then CHR ''-'' # natToString (nat (- i)) else natToString (nat i))"


section \<open>Plain objects used as dictionaries\<close>

text \<open>
  \<open>goals\<close> and \<open>spentByCategory\<close> are plain objects (\<open>{}\<close>, or what \<open>JSON.parse\<close>
  builds), whose prototype is \<open>Object.prototype\<close>. An object is the list of its own
  properties, with distinct keys. The keys that are not array indices stand in the
  order they were created; where an array index stands in the list is of no
  consequence, since an enumeration visits the array indices by value. Reading a key
  that is not an own property finds the member of \<open>Object.prototype\<close> of that name,
  if there is one.
\<close>

type_synonym 'v obj = "(string \<times> 'v) list"

datatype 'v lookup = Own 'v | Inherited | Undefined

definition objectPrototypeNames :: "string list" where
  "objectPrototypeNames =
     [''constructor'', ''__defineGetter__'', ''__defineSetter__'', ''hasOwnProperty'',
      ''__lookupGetter__'', ''__lookupSetter__'', ''isPrototypeOf'',
      ''propertyIsEnumerable'', ''toString'', ''valueOf'', ''__proto__'',
      ''toLocaleString'']"

text \<open>\<open>obj[k]\<close>\<close>

definition objGet :: "'v obj \<Rightarrow> string \<Rightarrow> 'v lookup" where
  "objGet obj k =
     (case map_of obj k of
        Some v \<Rightarrow> Own v
      | None \<Rightarrow> if k \<in> set objectPrototypeNames then Inherited else Undefined)"

text \<open>
  \<open>obj[k] = v\<close> for a number or string \<open>v\<close>. An own property is overwritten where it
  stands and a new one is created last. The inherited \<open>__proto__\<close> is an accessor
  whose setter ignores a value that is neither an object nor \<open>null\<close>, so the
  assignment then stores nothing; the other members of \<open>Object.prototype\<close> are
  writable data properties, which an assignment shadows by a new own property.
\<close>

definition objSet :: "'v obj \<Rightarrow> string \<Rightarrow> 'v \<Rightarrow> 'v obj" where
  "objSet obj k v =
     (if k = ''__proto__'' \<and> map_of obj k = None then obj else AList.update k v obj)"

text \<open>
  An array index is the canonical decimal string of an integer below \<open>2^32 - 1\<close>.
\<close>

definition isArrayIndex :: "string \<Rightarrow> bool" where
  "isArrayIndex s =
     (s \<noteq> [] \<and> list_all isDigit s \<and> (s = ''0'' \<or> hd s \<noteq> CHR ''0'')
      \<and> digitsToNat s < 2 ^ 32 - 1)"

text \<open>
  The keys \<open>for (const k in obj)\<close> visits, in order: the array indices in ascending
  numeric order first, then the other keys in the order they were created.
  (\<open>Object.prototype\<close> has no enumerable member, so only own keys are visited.)
\<close>

definition ownKeys :: "'v obj \<Rightarrow> string list" where
  "ownKeys obj =
     sort_key digitsToNat (filter isArrayIndex (map fst obj))
     @ filter (\<lambda>k. \<not> isArrayIndex k) (map fst obj)"


section \<open>The ledger document and data.json\<close>

text \<open>
  A transaction as the \<open>add\<close> command builds it (budget.js, lines 93-100). The \<open>id\<close>
  is the reading of \<open>Date.now()\<close>; \<open>type\<close> is the string the code compares with
  \<open>'income'\<close> and \<open>'expense'\<close>. The type of the amount is a parameter: a \<open>jsval\<close> in
  the running program, a JSON number or \<open>null\<close> in the file.
\<close>

record 'a transaction =
  txn_id :: int
  txn_type :: string
  txn_amount :: 'a
  txn_category :: string
  txn_description :: string
  txn_date :: string

record 'a document =
  doc_transactions :: "'a transaction list"
  doc_goals :: "'a obj"

text \<open>
  \<open>JSON.stringify\<close> writes a finite number as it is and NaN and the infinities as
  \<open>null\<close>; \<open>JSON.parse\<close> reads a number or \<open>null\<close> back. A number of the file is
  \<open>Some q\<close>, \<open>null\<close> is \<open>None\<close>. The keys of \<open>goals\<close> are written in the order
  \<open>for ... in\<close> visits them and created in that order when the file is parsed, which
  keeps the keys that are not array indices in the order they had.
\<close>

fun toJSON :: "jsval \<Rightarrow> rat option" where
  "toJSON (Num (Fin q)) = Some q"
| "toJSON _ = None"

fun fromJSON :: "rat option \<Rightarrow> jsval" where
  "fromJSON None = Null"
| "fromJSON (Some q) = Num (Fin q)"

definition mapAmount :: "('a \<Rightarrow> 'b) \<Rightarrow> 'a transaction \<Rightarrow> 'b transaction" where
  "mapAmount f t =
     \<lparr>txn_id = txn_id t, txn_type = txn_type t, txn_amount = f (txn_amount t),
      txn_category = txn_category t, txn_description = txn_description t,
      txn_date = txn_date t\<rparr>"

definition mapDocument :: "('a \<Rightarrow> 'b) \<Rightarrow> 'a document \<Rightarrow> 'b document" where
  "mapDocument f d =
     \<lparr>doc_transactions = map (mapAmount f) (doc_transactions d),
      doc_goals = map (\<lambda>(k, v). (k, f v)) (doc_goals d)\<rparr>"

definition JSON_stringify :: "jsval document \<Rightarrow> rat option document" where
  "JSON_stringify data = mapDocument toJSON data"

definition JSON_parse :: "rat option document \<Rightarrow> jsval document" where
  "JSON_parse raw = mapDocument fromJSON raw"

text \<open>
  The file data.json: absent, or holding a document. \<open>loadData\<close> (lines 17-23) gives
  the empty document when the file does not exist; \<open>saveData\<close> (lines 25-27)
  overwrites the file, and the model returns the new content. A file that does not
  parse and a write that fails are not modelled.
\<close>

type_synonym dataFile = "rat option document option"

definition loadData :: "dataFile \<Rightarrow> jsval document" where
  "loadData file =
     (case file of
        None \<Rightarrow> \<lparr>doc_transactions = [], doc_goals = []\<rparr>
      | Some raw \<Rightarrow> JSON_parse raw)"

definition saveData :: "jsval document \<Rightarrow> dataFile" where
  "saveData data = Some (JSON_stringify data)"


section \<open>calculateBalance\<close>

text \<open>
  The loop of \<open>calculateBalance\<close> (lines 30-34) with its two accumulators: a
  transaction whose type is \<open>'income'\<close> is added to \<open>income\<close>, every other one to
  \<open>expense\<close>.
\<close>

fun balanceLoop :: "jsval transaction list \<Rightarrow> jsnum \<Rightarrow> jsnum \<Rightarrow> jsnum \<times> jsnum" where
  "balanceLoop [] income expense = (income, expense)"
| "balanceLoop (t # ts) income expense =
     (if txn_type t = ''income''
      then balanceLoop ts (js_add income (toNumber (txn_amount t))) expense
      else balanceLoop ts income (js_add expense (toNumber (txn_amount t))))"

definition calculateBalance :: "jsval transaction list \<Rightarrow> jsnum" where
  "calculateBalance transactions =
     (case balanceLoop transactions (Fin 0) (Fin 0) of
        (income, expense) \<Rightarrow> js_sub income expense)"


section \<open>checkAlerts\<close>

text \<open>
  A value held by \<open>spentByCategory\<close>: a number, or the string that \<open>+\<close> makes when
  its left operand is a member of \<open>Object.prototype\<close> (a function, or
  \<open>Object.prototype\<close> itself for \<open>__proto__\<close>) or such a string already. Such a
  string starts with \<open>function\<close> or \<open>[object Object]\<close>: it is truthy and converts to
  NaN.
\<close>

datatype spentval = Spent jsnum | Garbled

text \<open>\<open>spentByCategory[c] || 0\<close>\<close>

fun orZero :: "spentval lookup \<Rightarrow> spentval" where
  "orZero (Own (Spent n)) = (if truthy n then Spent n else Spent (Fin 0))"
| "orZero (Own Garbled) = Garbled"
| "orZero Inherited = Garbled"
| "orZero Undefined = Spent (Fin 0)"

text \<open>\<open>x + t.amount\<close>: an addition of numbers, or a concatenation onto a string.\<close>

fun plusAmount :: "spentval \<Rightarrow> jsval \<Rightarrow> spentval" where
  "plusAmount (Spent n) a = Spent (js_add n (toNumber a))"
| "plusAmount Garbled a = Garbled"

text \<open>The first loop of \<open>checkAlerts\<close> (lines 43-48).\<close>

fun spendLoop ::
  "jsval transaction list \<Rightarrow> spentval obj \<Rightarrow> jsnum \<Rightarrow> spentval obj \<times> jsnum" where
  "spendLoop [] spentByCategory totalExpense = (spentByCategory, totalExpense)"
| "spendLoop (t # ts) spentByCategory totalExpense =
     (if txn_type t = ''expense''
      then spendLoop ts
             (objSet spentByCategory (txn_category t)
                (plusAmount (orZero (objGet spentByCategory (txn_category t))) (txn_amount t)))
             (js_add totalExpense (toNumber (txn_amount t)))
      else spendLoop ts spentByCategory totalExpense)"

text \<open>
  An alert stands for the message of line 53 or of line 57: the key (for a category),
  the amount spent and the goal that the message prints.
\<close>

datatype alert = TotalAlert jsnum jsval | CategoryAlert string jsnum jsval

text \<open>
  The second loop (lines 50-60) over the keys of \<open>goals\<close>. Every key it visits is an
  own property of \<open>goals\<close>; a comparison with anything else than a number or \<open>null\<close>
  is false and pushes nothing. A comparison of a \<open>Garbled\<close> string with the goal is
  false as well, since the string converts to NaN.
\<close>

fun alertsLoop :: "string list \<Rightarrow> jsval obj \<Rightarrow> spentval obj \<Rightarrow> jsnum \<Rightarrow> alert list" where
  "alertsLoop [] goals spentByCategory totalExpense = []"
| "alertsLoop (cat # cats) goals spentByCategory totalExpense =
     (case objGet goals cat of
        Own goal \<Rightarrow>
          if cat = ''total'' then
            (if js_gt totalExpense (toNumber goal) then [TotalAlert totalExpense goal] else [])
          else
            (case orZero (objGet spentByCategory cat) of
               Spent n \<Rightarrow> if js_gt n (toNumber goal) then [CategoryAlert cat n goal] else []
             | Garbled \<Rightarrow> [])
      | Inherited \<Rightarrow> []
      | Undefined \<Rightarrow> [])
     @ alertsLoop cats goals spentByCategory totalExpense"

definition checkAlerts :: "jsval transaction list \<Rightarrow> jsval obj \<Rightarrow> alert list" where
  "checkAlerts transactions goals =
     (case spendLoop transactions [] (Fin 0) of
        (spentByCategory, totalExpense) \<Rightarrow>
          alertsLoop (ownKeys goals) goals spentByCategory totalExpense)"


section \<open>The commands add, delete and setgoal\<close>

text \<open>
  What a command leaves behind: the content of data.json, the lines it printed and
  the exit status of the process (\<open>process.exit(1)\<close> gives 1, a return gives 0).
\<close>

datatype message =
    TypeMustBeIncomeOrExpense
  | AmountMustBePositive
  | Added string jsnum string
  | Alert alert
  | NoTransactionFound
  | Deleted string
  | GoalSet string jsnum

record outcome =
  out_file :: dataFile
  out_console :: "message list"
  out_exit :: nat

text \<open>The clock a command reads: \<open>Date.now()\<close> and the calendar date.\<close>

record clock =
  now :: int
  today :: string

text \<open>The action of \<open>add\<close> (lines 80-109).\<close>

definition add_action ::
  "clock \<Rightarrow> string \<Rightarrow> string \<Rightarrow> string \<Rightarrow> string \<Rightarrow> dataFile \<Rightarrow> outcome" where
  "add_action clk type amount category description file =
     (let type = toLowerCase type in
      if type \<noteq> ''income'' \<and> type \<noteq> ''expense'' then
        \<lparr>out_file = file, out_console = [TypeMustBeIncomeOrExpense], out_exit = 1\<rparr>
      else
        let amount = parseFloat amount in
        if isNaN amount \<or> js_le amount (Fin 0) then
          \<lparr>out_file = file, out_console = [AmountMustBePositive], out_exit = 1\<rparr>
        else
          let data = loadData file;
              transaction =
                \<lparr>txn_id = now clk, txn_type = type, txn_amount = Num amount,
                 txn_category = category, txn_description = description,
                 txn_date = today clk\<rparr>;
              data = data\<lparr>doc_transactions := doc_transactions data @ [transaction]\<rparr>;
              alerts = checkAlerts (doc_transactions data) (doc_goals data)
          in \<lparr>out_file = saveData data,
              out_console = Added type amount category # map Alert alerts,
              out_exit = 0\<rparr>)"

text \<open>The action of \<open>delete\<close> (lines 145-155).\<close>

definition delete_action :: "string \<Rightarrow> dataFile \<Rightarrow> outcome" where
  "delete_action ident file =
     (let data = loadData file;
          beforeCount = length (doc_transactions data);
          data = data\<lparr>doc_transactions :=
                   filter (\<lambda>t. toString (txn_id t) \<noteq> ident) (doc_transactions data)\<rparr>
      in if length (doc_transactions data) = beforeCount then
           \<lparr>out_file = file, out_console = [NoTransactionFound], out_exit = 0\<rparr>
         else
           \<lparr>out_file = saveData data, out_console = [Deleted ident], out_exit = 0\<rparr>)"

text \<open>The action of \<open>setgoal\<close> (lines 194-204).\<close>

definition setgoal_action :: "string \<Rightarrow> string \<Rightarrow> dataFile \<Rightarrow> outcome" where
  "setgoal_action category amount file =
     (let amount = parseFloat amount in
      if isNaN amount \<or> js_le amount (Fin 0) then
        \<lparr>out_file = file, out_console = [AmountMustBePositive], out_exit = 0\<rparr>
      else
        let data = loadData file;
            data = data\<lparr>doc_goals := objSet (doc_goals data) category (Num amount)\<rparr>
        in \<lparr>out_file = saveData data, out_console = [GoalSet category amount],
            out_exit = 0\<rparr>)"

text \<open>A session: commands run one after the other, each a process of its own.\<close>

datatype command =
    Add clock string string string string
  | Delete string
  | SetGoal string string

fun exec :: "command \<Rightarrow> dataFile \<Rightarrow> outcome" where
  "exec (Add clk type amount category description) file =
     add_action clk type amount category description file"
| "exec (Delete ident) file = delete_action ident file"
| "exec (SetGoal category amount) file = setgoal_action category amount file"

fun run :: "command list \<Rightarrow> dataFile \<Rightarrow> dataFile" where
  "run [] file = file"
| "run (c # cs) file = run cs (out_file (exec c file))"


section \<open>Notions the properties are stated with\<close>

text \<open>
  The sum of a list of amounts, added left to right from \<open>0\<close> as a JavaScript
  accumulation does it. Sums are stated with this function, so no theorem relies on
  the order of additions being irrelevant.
\<close>

definition js_sum :: "jsval list \<Rightarrow> jsnum" where
  "js_sum xs = foldl (\<lambda>s a. js_add s (toNumber a)) (Fin 0) xs"

definition amountsOf :: "(jsval transaction \<Rightarrow> bool) \<Rightarrow> jsval transaction list \<Rightarrow> jsval list" where
  "amountsOf p ts = map txn_amount (filter p ts)"

definition isIncome :: "'a transaction \<Rightarrow> bool" where
  "isIncome t = (txn_type t = ''income'')"

definition isExpense :: "'a transaction \<Rightarrow> bool" where
  "isExpense t = (txn_type t = ''expense'')"

text \<open>A transaction with the given id, type, amount and category, for the examples.\<close>

definition sample :: "int \<Rightarrow> string \<Rightarrow> rat \<Rightarrow> string \<Rightarrow> jsval transaction" where
  "sample i ty a c =
     \<lparr>txn_id = i, txn_type = ty, txn_amount = Num (Fin a), txn_category = c,
      txn_description = [], txn_date = ''2024-07-01''\<rparr>"

text \<open>
  An input with no number to read: after the leading white space and a sign it starts
  neither with \<open>Infinity\<close>, nor with a digit, nor with a dot followed by a digit.
\<close>

definition nonNumeric :: "string \<Rightarrow> bool" where
  "nonNumeric input =
     (case signOf (dropWhile isWhiteSpace input) of
        (sign, s) \<Rightarrow>
          take 8 s \<noteq> ''Infinity''
          \<and> (s = [] \<or> \<not> isDigit (hd s))
          \<and> (s = [] \<or> hd s \<noteq> CHR ''.'' \<or> tl s = [] \<or> \<not> isDigit (hd (tl s))))"

text \<open>
  A data.json for the examples: three transactions, two of them with the same id, and
  one goal.
\<close>

definition ex_file :: dataFile where
  "ex_file = saveData
     \<lparr>doc_transactions =
        [sample 7 ''income'' 1000 ''salary'',
         sample 1723000000000 ''expense'' 200 ''groceries'',
         sample 7 ''expense'' 400 ''groceries''],
      doc_goals = [(''groceries'', Num (Fin 500))]\<rparr>"

text \<open>An \<open>add\<close> command whose type and amount pass the checks of lines 82 and 87.\<close>

definition accepted :: "string \<Rightarrow> string \<Rightarrow> bool" where
  "accepted type amount =
     ((toLowerCase type = ''income'' \<or> toLowerCase type = ''expense'')
      \<and> \<not> isNaN (parseFloat amount) \<and> \<not> js_le (parseFloat amount) (Fin 0))"

text \<open>
  The values \<open>Date.now()\<close> returns in the course of a session, in order: one for each
  \<open>add\<close> command that passes the checks (the others exit before they read the clock).
\<close>

fun readings :: "command list \<Rightarrow> int list" where
  "readings [] = []"
| "readings (Add clk type amount category description # cs) =
     (if accepted type amount then now clk # readings cs else readings cs)"
| "readings (Delete ident # cs) = readings cs"
| "readings (SetGoal category amount # cs) = readings cs"

text \<open>The amounts of the \<open>add\<close> commands of a session that pass the checks.\<close>

fun acceptedAmounts :: "command list \<Rightarrow> string list" where
  "acceptedAmounts [] = []"
| "acceptedAmounts (Add clk type amount category description # cs) =
     (if accepted type amount then amount # acceptedAmounts cs else acceptedAmounts cs)"
| "acceptedAmounts (Delete ident # cs) = acceptedAmounts cs"
| "acceptedAmounts (SetGoal category amount # cs) = acceptedAmounts cs"

text \<open>
  What the data model asks of a transaction: a positive finite amount and a type that
  is \<open>'income'\<close> or \<open>'expense'\<close>.
\<close>

definition validTransaction :: "jsval transaction \<Rightarrow> bool" where
  "validTransaction t =
     ((\<exists>q. 0 < q \<and> txn_amount t = Num (Fin q))
      \<and> (txn_type t = ''income'' \<or> txn_type t = ''expense''))"

text \<open>
  The amount spent that a goal key stands for: all the expenses for \<open>'total'\<close>, the
  expenses of the category otherwise.
\<close>

definition spendOf :: "jsval transaction list \<Rightarrow> string \<Rightarrow> jsnum" where
  "spendOf ts key =
     (if key = ''total'' then js_sum (amountsOf isExpense ts)
      else js_sum (amountsOf (\<lambda>t. isExpense t \<and> txn_category t = key) ts))"

text \<open>The spend of a key is strictly above the goal set for it.\<close>

definition exceeded :: "jsval transaction list \<Rightarrow> jsval obj \<Rightarrow> string \<Rightarrow> bool" where
  "exceeded ts goals key =
     (case map_of goals key of
        Some goal \<Rightarrow> js_gt (spendOf ts key) (toNumber goal)
      | None \<Rightarrow> False)"

fun alertKey :: "alert \<Rightarrow> string" where
  "alertKey (TotalAlert spent goal) = ''total''"
| "alertKey (CategoryAlert cat spent goal) = cat"

definition mkAlert :: "string \<Rightarrow> jsnum \<Rightarrow> jsval \<Rightarrow> alert" where
  "mkAlert key spent goal =
     (if key = ''total'' then TotalAlert spent goal else CategoryAlert key spent goal)"

text \<open>
  Amounts that cannot add up to NaN: anything but NaN and \<open>-Infinity\<close> (\<open>null\<close>
  counts as \<open>0\<close>). Every amount that \<open>add\<close> accepts or that is read back from
  data.json is such.
\<close>

definition plainNumber :: "jsnum \<Rightarrow> bool" where
  "plainNumber n = (n \<noteq> NaN \<and> n \<noteq> NegInf)"

definition plainAmounts :: "jsval transaction list \<Rightarrow> bool" where
  "plainAmounts ts = (\<forall>t\<in>set ts. plainNumber (toNumber (txn_amount t)))"

text \<open>
  The alerts expected for one goal key when the key is not the name of a member of
  \<open>Object.prototype\<close>; for such a name \<open>checkAlerts\<close> pushes nothing.
\<close>

definition alertsFor :: "jsval transaction list \<Rightarrow> jsval obj \<Rightarrow> string \<Rightarrow> alert list" where
  "alertsFor ts goals key =
     (case map_of goals key of
        None \<Rightarrow> []
      | Some goal \<Rightarrow>
          if key \<in> set objectPrototypeNames then []
          else if js_gt (spendOf ts key) (toNumber goal)
               then [mkAlert key (spendOf ts key) goal] else [])"

text \<open>Examples: a clock, a session of commands, a list of transactions, goals.\<close>

definition ex_clock :: "int \<Rightarrow> clock" where
  "ex_clock n = \<lparr>now = n, today = ''2024-08-07''\<rparr>"

definition ex_session :: "command list" where
  "ex_session =
     [Add (ex_clock 1723000000000) ''income'' ''1000'' ''salary'' ''July paycheck'',
      Add (ex_clock 1723000000050) ''Expense'' ''200'' ''groceries'' [],
      SetGoal ''groceries'' ''500'',
      Add (ex_clock 1723000000100) ''expense'' ''abc'' ''groceries'' [],
      Add (ex_clock 1723000000150) ''expense'' ''400'' ''groceries'' [],
      Delete ''1723000000050'']"

definition ex_expenses :: "jsval transaction list" where
  "ex_expenses =
     [sample 1 ''income'' 1000 ''salary'', sample 2 ''expense'' 200 ''groceries'',
      sample 3 ''expense'' 30 ''10'', sample 4 ''expense'' 40 ''2'',
      sample 5 ''expense'' 400 ''groceries'', sample 6 ''expense'' 5 ''rent'']"

definition ex_goals :: "jsval obj" where
  "ex_goals =
     [(''groceries'', Num (Fin 500)), (''10'', Num (Fin 20)), (''rent'', Num (Fin 5)),
      (''total'', Num (Fin 600)), (''2'', Num (Fin 10))]"

section \<open>data.json round trips\<close>

lemma toJSON_fromJSON [simp]: "toJSON (fromJSON j) = j"
  by (cases j) simp_all

lemma stringify_parse_txn [simp]: "mapAmount toJSON (mapAmount fromJSON t) = t"
  by (simp add: mapAmount_def)

lemma stringify_parse_txns [simp]: "map (mapAmount toJSON \<circ> mapAmount fromJSON) ts = ts"
  by (induction ts) simp_all

lemma stringify_parse_goals [simp]:
  "map ((\<lambda>(k, v). (k, toJSON v)) \<circ> (\<lambda>(k, v). (k, fromJSON v))) gs = gs"
  by (induction gs) auto

lemma JSON_stringify_parse [simp]: "JSON_stringify (JSON_parse raw) = raw"
  by (simp add: JSON_stringify_def JSON_parse_def mapDocument_def)

lemma mapAmount_sel [simp]:
  "txn_id (mapAmount f t) = txn_id t"
  "txn_type (mapAmount f t) = txn_type t"
  "txn_amount (mapAmount f t) = f (txn_amount t)"
  "txn_category (mapAmount f t) = txn_category t"
  "txn_description (mapAmount f t) = txn_description t"
  "txn_date (mapAmount f t) = txn_date t"
  by (simp_all add: mapAmount_def)

lemma mapDocument_sel [simp]:
  "doc_transactions (mapDocument f d) = map (mapAmount f) (doc_transactions d)"
  "doc_goals (mapDocument f d) = map (\<lambda>(k, v). (k, f v)) (doc_goals d)"
  by (simp_all add: mapDocument_def)

lemma loadData_saveData_transactions:
  "doc_transactions (loadData (saveData d)) =
     map (mapAmount (\<lambda>a. fromJSON (toJSON a))) (doc_transactions d)"
  by (simp add: loadData_def saveData_def JSON_stringify_def JSON_parse_def mapAmount_def)

lemma loadData_saveData_goals:
  "doc_goals (loadData (saveData d)) = map (\<lambda>(k, v). (k, fromJSON (toJSON v))) (doc_goals d)"
  by (simp add: loadData_def saveData_def JSON_stringify_def JSON_parse_def comp_def
      split_def)

lemma loaded_amount_storable:
  "t \<in> set (doc_transactions (loadData file)) \<Longrightarrow> fromJSON (toJSON (txn_amount t)) = txn_amount t"
  by (auto simp: loadData_def JSON_parse_def split: option.splits)

lemma loaded_goal_storable:
  "(k, v) \<in> set (doc_goals (loadData file)) \<Longrightarrow> fromJSON (toJSON v) = v"
  by (auto simp: loadData_def JSON_parse_def split: option.splits)

lemma storable_transactions_kept:
  "(\<And>t. t \<in> set ts \<Longrightarrow> fromJSON (toJSON (txn_amount t)) = txn_amount t) \<Longrightarrow>
   map (mapAmount (\<lambda>a. fromJSON (toJSON a))) ts = (ts :: jsval transaction list)"
  by (induction ts) (simp_all add: mapAmount_def)

lemma storable_goals_kept:
  "(\<And>k v. (k, v) \<in> set gs \<Longrightarrow> fromJSON (toJSON v) = v) \<Longrightarrow>
   map (\<lambda>(k, v). (k, fromJSON (toJSON v))) gs = gs"
  by (induction gs) auto


section \<open>Properties of objSet and ownKeys\<close>

lemma map_of_objSet:
  "map_of (objSet obj k v) k' =
     (if k = ''__proto__'' \<and> map_of obj k = None then map_of obj k'
      else if k' = k then Some v else map_of obj k')"
  by (auto simp: objSet_def update_conv')

lemma set_update_subset: "set (AList.update k v al) \<subseteq> insert (k, v) (set al)"
  by (induction al) auto

lemma set_objSet_subset: "set (objSet obj k v) \<subseteq> insert (k, v) (set obj)"
  using set_update_subset [of k v obj] by (auto simp: objSet_def)

lemma objGet_objSet:
  "objGet (objSet obj k v) k' =
     (if k = ''__proto__'' \<and> map_of obj k = None then objGet obj k'
      else if k' = k then Own v else objGet obj k')"
  by (auto simp: objGet_def map_of_objSet split: option.splits)

lemma keys_objSet:
  "map fst (objSet obj k v) =
     (if k \<in> set (map fst obj) \<or> k = ''__proto__'' then map fst obj else map fst obj @ [k])"
  by (auto simp: objSet_def update_keys map_of_eq_None_iff image_iff)

lemma set_ownKeys: "set (ownKeys obj) = set (map fst obj)"
  by (auto simp: ownKeys_def)


section \<open>What the commands write\<close>

lemma filter_same_length:
  "length (filter P xs) = length xs \<longleftrightarrow> (\<forall>x\<in>set xs. P x)"
proof
  assume len: "length (filter P xs) = length xs"
  show "\<forall>x\<in>set xs. P x"
  proof (rule ccontr)
    assume "\<not> (\<forall>x\<in>set xs. P x)"
    then obtain x where "x \<in> set xs" "\<not> P x" by blast
    then have "length (filter P xs) < length xs" by (rule length_filter_less)
    with len show False by simp
  qed
next
  assume "\<forall>x\<in>set xs. P x"
  then show "length (filter P xs) = length xs" by simp
qed

lemma delete_action_not_found:
  assumes "\<forall>t\<in>set (doc_transactions (loadData file)). toString (txn_id t) \<noteq> ident"
  shows "delete_action ident file =
           \<lparr>out_file = file, out_console = [NoTransactionFound], out_exit = 0\<rparr>"
  using assms by (simp add: delete_action_def Let_def)

lemma delete_action_found:
  assumes "\<exists>t\<in>set (doc_transactions (loadData file)). toString (txn_id t) = ident"
  shows "delete_action ident file =
           \<lparr>out_file = saveData ((loadData file)\<lparr>doc_transactions :=
                 filter (\<lambda>t. toString (txn_id t) \<noteq> ident) (doc_transactions (loadData file))\<rparr>),
            out_console = [Deleted ident], out_exit = 0\<rparr>"
proof -
  have "length (filter (\<lambda>t. toString (txn_id t) \<noteq> ident) (doc_transactions (loadData file)))
          \<noteq> length (doc_transactions (loadData file))"
    using assms by (auto simp: filter_same_length)
  then show ?thesis by (simp add: delete_action_def Let_def)
qed

lemma delete_action_transactions:
  "doc_transactions (loadData (out_file (delete_action ident file))) =
     filter (\<lambda>t. toString (txn_id t) \<noteq> ident) (doc_transactions (loadData file))"
proof (cases "\<exists>t\<in>set (doc_transactions (loadData file)). toString (txn_id t) = ident")
  case True
  have "map (mapAmount (\<lambda>a. fromJSON (toJSON a)))
          (filter (\<lambda>t. toString (txn_id t) \<noteq> ident) (doc_transactions (loadData file)))
        = filter (\<lambda>t. toString (txn_id t) \<noteq> ident) (doc_transactions (loadData file))"
    by (rule storable_transactions_kept) (auto intro: loaded_amount_storable)
  then show ?thesis
    by (simp add: delete_action_found [OF True] loadData_saveData_transactions)
next
  case False
  then have none: "\<forall>t\<in>set (doc_transactions (loadData file)). toString (txn_id t) \<noteq> ident"
    by blast
  show ?thesis by (simp add: delete_action_not_found [OF none] none)
qed

lemma delete_action_goals:
  "doc_goals (loadData (out_file (delete_action ident file))) = doc_goals (loadData file)"
proof (cases "\<exists>t\<in>set (doc_transactions (loadData file)). toString (txn_id t) = ident")
  case True
  show ?thesis
    by (simp add: delete_action_found [OF True] loadData_saveData_goals
        storable_goals_kept loaded_goal_storable)
next
  case False
  then have none: "\<forall>t\<in>set (doc_transactions (loadData file)). toString (txn_id t) \<noteq> ident"
    by blast
  show ?thesis by (simp add: delete_action_not_found [OF none])
qed

lemma toDouble_not_NaN [simp]: "\<not> isNaN (toDouble q)"
  by (simp add: toDouble_def)

lemma dot_no_digit [simp]: "\<not> isDigit CHR ''.''"
  by (simp add: isDigit_def)

lemma parseFloat_NaN_iff: "isNaN (parseFloat input) \<longleftrightarrow> nonNumeric input"
proof -
  obtain sign s where split: "signOf (dropWhile isWhiteSpace input) = (sign, s)"
    by (cases "signOf (dropWhile isWhiteSpace input)")
  show ?thesis
  proof (cases "take 8 s = ''Infinity''")
    case True
    then show ?thesis by (simp add: parseFloat_def nonNumeric_def split)
  next
    case noInf: False
    show ?thesis
    proof (cases "s = [] \<or> \<not> isDigit (hd s)")
      case True
      then have int: "takeWhile isDigit s = []" and after: "dropWhile isDigit s = s"
        by (auto simp: takeWhile_eq_Nil_iff dropWhile_eq_self_iff)
      show ?thesis
        using True noInf
        by (auto simp: parseFloat_def nonNumeric_def split int after Let_def
            takeWhile_eq_Nil_iff)
    next
      case False
      then have "takeWhile isDigit s \<noteq> []" by (simp add: takeWhile_eq_Nil_iff)
      then show ?thesis
        using False noInf by (simp add: parseFloat_def nonNumeric_def split Let_def)
    qed
  qed
qed

lemma setgoal_action_rejected:
  assumes "isNaN (parseFloat amount) \<or> js_le (parseFloat amount) (Fin 0)"
  shows "setgoal_action category amount file =
           \<lparr>out_file = file, out_console = [AmountMustBePositive], out_exit = 0\<rparr>"
  using assms by (simp add: setgoal_action_def Let_def)

lemma add_action_bad_type:
  assumes "toLowerCase type \<noteq> ''income''" "toLowerCase type \<noteq> ''expense''"
  shows "add_action clk type amount category description file =
           \<lparr>out_file = file, out_console = [TypeMustBeIncomeOrExpense], out_exit = 1\<rparr>"
  using assms by (simp add: add_action_def Let_def)

lemma add_action_bad_amount:
  assumes "toLowerCase type = ''income'' \<or> toLowerCase type = ''expense''"
    and "isNaN (parseFloat amount) \<or> js_le (parseFloat amount) (Fin 0)"
  shows "add_action clk type amount category description file =
           \<lparr>out_file = file, out_console = [AmountMustBePositive], out_exit = 1\<rparr>"
  using assms by (auto simp: add_action_def Let_def)

lemma add_action_rejected_exit:
  assumes "isNaN (parseFloat amount) \<or> js_le (parseFloat amount) (Fin 0)"
  shows "out_exit (add_action clk type amount category description file) = 1"
    and "out_file (add_action clk type amount category description file) = file"
  using assms by (auto simp: add_action_def Let_def)

lemma accepted_amount_positive:
  assumes "\<not> (isNaN a \<or> js_le a (Fin 0))" "a \<noteq> PosInf"
  shows "\<exists>q. 0 < q \<and> a = Fin q"
  using assms by (cases a) (auto simp: js_le_def)

lemma add_action_accepted:
  assumes "toLowerCase type = ''income'' \<or> toLowerCase type = ''expense''"
    and "\<not> (isNaN (parseFloat amount) \<or> js_le (parseFloat amount) (Fin 0))"
  shows "out_file (add_action clk type amount category description file) =
           saveData ((loadData file)\<lparr>doc_transactions := doc_transactions (loadData file) @
              [\<lparr>txn_id = now clk, txn_type = toLowerCase type,
                txn_amount = Num (parseFloat amount), txn_category = category,
                txn_description = description, txn_date = today clk\<rparr>]\<rparr>)"
  using assms by (auto simp: add_action_def Let_def)

lemma add_action_transactions:
  assumes "toLowerCase type = ''income'' \<or> toLowerCase type = ''expense''"
    and "\<not> (isNaN (parseFloat amount) \<or> js_le (parseFloat amount) (Fin 0))"
  shows "doc_transactions (loadData (out_file (add_action clk type amount category description file))) =
           doc_transactions (loadData file) @
              [\<lparr>txn_id = now clk, txn_type = toLowerCase type,
                txn_amount = fromJSON (toJSON (Num (parseFloat amount))),
                txn_category = category,
                txn_description = description, txn_date = today clk\<rparr>]"
proof -
  have "map (mapAmount (\<lambda>a. fromJSON (toJSON a))) (doc_transactions (loadData file))
          = doc_transactions (loadData file)"
    by (rule storable_transactions_kept) (auto intro: loaded_amount_storable)
  then show ?thesis
    by (simp add: add_action_accepted [OF assms] loadData_saveData_transactions mapAmount_def)
qed

lemma add_action_rejected_file:
  assumes "\<not> ((toLowerCase type = ''income'' \<or> toLowerCase type = ''expense'')
             \<and> \<not> (isNaN (parseFloat amount) \<or> js_le (parseFloat amount) (Fin 0)))"
  shows "out_file (add_action clk type amount category description file) = file"
  using assms by (auto simp: add_action_def Let_def)

lemma setgoal_action_accepted:
  assumes "\<not> (isNaN (parseFloat amount) \<or> js_le (parseFloat amount) (Fin 0))"
  shows "setgoal_action category amount file =
           \<lparr>out_file = saveData ((loadData file)\<lparr>doc_goals :=
               objSet (doc_goals (loadData file)) category (Num (parseFloat amount))\<rparr>),
            out_console = [GoalSet category (parseFloat amount)], out_exit = 0\<rparr>"
  using assms by (simp add: setgoal_action_def Let_def)

lemma setgoal_action_transactions:
  "doc_transactions (loadData (out_file (setgoal_action category amount file))) =
     doc_transactions (loadData file)"
proof (cases "isNaN (parseFloat amount) \<or> js_le (parseFloat amount) (Fin 0)")
  case True
  then show ?thesis by (simp add: setgoal_action_rejected)
next
  case False
  have "map (mapAmount (\<lambda>a. fromJSON (toJSON a))) (doc_transactions (loadData file))
          = doc_transactions (loadData file)"
    by (rule storable_transactions_kept) (auto intro: loaded_amount_storable)
  then show ?thesis
    by (simp add: setgoal_action_accepted [OF False] loadData_saveData_transactions)
qed

lemma setgoal_action_goals:
  assumes "parseFloat amount = Fin q" "0 < q"
  shows "doc_goals (loadData (out_file (setgoal_action category amount file))) =
           objSet (doc_goals (loadData file)) category (Num (Fin q))"
proof -
  have ok: "\<not> (isNaN (parseFloat amount) \<or> js_le (parseFloat amount) (Fin 0))"
    using assms by (simp add: js_le_def)
  have "map (\<lambda>(k, v). (k, fromJSON (toJSON v)))
          (objSet (doc_goals (loadData file)) category (Num (Fin q)))
        = objSet (doc_goals (loadData file)) category (Num (Fin q))"
  proof (rule storable_goals_kept)
    fix k v
    assume "(k, v) \<in> set (objSet (doc_goals (loadData file)) category (Num (Fin q)))"
    then have "(k, v) = (category, Num (Fin q)) \<or> (k, v) \<in> set (doc_goals (loadData file))"
      using set_objSet_subset by fastforce
    then show "fromJSON (toJSON v) = v"
      by (auto intro: loaded_goal_storable)
  qed
  then show ?thesis
    by (simp add: setgoal_action_accepted [OF ok] loadData_saveData_goals assms)
qed


text \<open>
  Whatever the commands, the transactions of data.json have the type \<open>'income'\<close> or
  \<open>'expense'\<close>.
\<close>

lemma exec_types:
  assumes "\<forall>t\<in>set (doc_transactions (loadData file)).
             txn_type t = ''income'' \<or> txn_type t = ''expense''"
  shows "\<forall>t\<in>set (doc_transactions (loadData (out_file (exec c file)))).
           txn_type t = ''income'' \<or> txn_type t = ''expense''"
proof (cases c)
  case (Add clk type amount category description)
  show ?thesis
  proof (cases "(toLowerCase type = ''income'' \<or> toLowerCase type = ''expense'')
                \<and> \<not> (isNaN (parseFloat amount) \<or> js_le (parseFloat amount) (Fin 0))")
    case True
    then show ?thesis
      using assms by (auto simp: Add add_action_transactions)
  next
    case False
    then show ?thesis
      using assms by (simp add: Add add_action_rejected_file)
  qed
next
  case (Delete ident)
  then show ?thesis
    using assms by (simp add: delete_action_transactions)
next
  case (SetGoal category amount)
  then show ?thesis
    using assms by (simp add: setgoal_action_transactions)
qed

lemma run_types:
  assumes "\<forall>t\<in>set (doc_transactions (loadData f)).
             txn_type t = ''income'' \<or> txn_type t = ''expense''"
  shows "\<forall>t\<in>set (doc_transactions (loadData (run cs f))).
           txn_type t = ''income'' \<or> txn_type t = ''expense''"
  using assms
proof (induction cs arbitrary: f)
  case Nil
  then show ?case by simp
next
  case (Cons c cs)
  from exec_types [OF Cons.prems, of c] show ?case
    using Cons.IH [of "out_file (exec c f)"] by simp
qed

lemma session_types:
  "\<forall>t\<in>set (doc_transactions (loadData (run cs None))).
     txn_type t = ''income'' \<or> txn_type t = ''expense''"
  by (rule run_types) (simp add: loadData_def)


section \<open>The examples, evaluated\<close>

lemma parseFloat_examples:
  "parseFloat ''Infinity'' = PosInf"
  "parseFloat ''abc'' = NaN"
  "parseFloat ''-5'' = Fin (- 5)"
  "parseFloat ''0'' = Fin 0"
  "parseFloat ''100'' = Fin 100"
  "parseFloat ''12abc'' = Fin 12"
  "parseFloat ''12.5'' = Fin (25 / 2)"
  by (simp_all add: parseFloat_def isWhiteSpace_def isDigit_def digitsToNat_def Let_def
      exponentPart_def pow10_def toDouble_def)

lemma toString_examples:
  "toString 7 = ''7''"
  "toString 1723000000000 = ''1723000000000''"
  "toString 1723000000050 = ''1723000000050''"
  "toString 1723000000150 = ''1723000000150''"
  by (simp_all add: toString_def natToString.simps)

lemma ex_file_loaded:
  "loadData ex_file =
     \<lparr>doc_transactions =
        [sample 7 ''income'' 1000 ''salary'', sample 1723000000000 ''expense'' 200 ''groceries'',
         sample 7 ''expense'' 400 ''groceries''],
      doc_goals = [(''groceries'', Num (Fin 500))]\<rparr>"
  by (simp add: ex_file_def loadData_def saveData_def JSON_parse_def JSON_stringify_def
      mapDocument_def mapAmount_def sample_def)

lemma ex_session_result:
  "run ex_session None =
     Some \<lparr>doc_transactions =
        [\<lparr>txn_id = 1723000000000, txn_type = ''income'', txn_amount = Some 1000,
          txn_category = ''salary'', txn_description = ''July paycheck'',
          txn_date = ''2024-08-07''\<rparr>,
         \<lparr>txn_id = 1723000000150, txn_type = ''expense'', txn_amount = Some 400,
          txn_category = ''groceries'', txn_description = [],
          txn_date = ''2024-08-07''\<rparr>],
        doc_goals = [(''groceries'', Some 500)]\<rparr>"
  by (simp add: ex_session_def ex_clock_def add_action_def delete_action_def
      setgoal_action_def toLowerCase_def lowerChar_def Let_def parseFloat_def
      isWhiteSpace_def isDigit_def digitsToNat_def exponentPart_def pow10_def toDouble_def
      js_le_def loadData_def saveData_def JSON_stringify_def JSON_parse_def mapDocument_def
      mapAmount_def objSet_def toString_examples)

lemmas checkAlerts_eval =
  checkAlerts_def objSet_def objGet_def objectPrototypeNames_def ownKeys_def
  isArrayIndex_def isDigit_def digitsToNat_def truthy_def js_gt_def sample_def


section \<open>Properties of calculateBalance\<close>

lemma balanceLoop_foldl:
  "balanceLoop ts i e =
     (foldl (\<lambda>s a. js_add s (toNumber a)) i (amountsOf isIncome ts),
      foldl (\<lambda>s a. js_add s (toNumber a)) e (amountsOf (\<lambda>t. \<not> isIncome t) ts))"
  by (induction ts arbitrary: i e) (simp_all add: amountsOf_def isIncome_def)

lemma calculateBalance_sums:
  "calculateBalance ts =
     js_sub (js_sum (amountsOf isIncome ts)) (js_sum (amountsOf (\<lambda>t. \<not> isIncome t) ts))"
  by (simp add: calculateBalance_def balanceLoop_foldl js_sum_def)

lemma typed_not_income:
  assumes "\<forall>t\<in>set ts. txn_type t = ''income'' \<or> txn_type t = ''expense''"
  shows "filter (\<lambda>t. \<not> isIncome t) ts = filter isExpense ts"
  using assms by (intro filter_cong) (auto simp: isIncome_def isExpense_def)

text \<open>
  Claim C2. For every list of transactions whose types are \<open>'income'\<close> or \<open>'expense'\<close>,
  and so for the transactions of data.json after any session, \<open>calculateBalance\<close> is
  the sum of the income amounts minus the sum of the expense amounts; it is \<open>0\<close> on
  the empty list and \<open>800\<close> on one income of 1000 and one expense of 200.
\<close>

theorem calculateBalance_income_minus_expense:
  assumes "\<forall>t\<in>set ts. txn_type t = ''income'' \<or> txn_type t = ''expense''"
  shows "calculateBalance ts =
           js_sub (js_sum (amountsOf isIncome ts)) (js_sum (amountsOf isExpense ts))
         \<and> calculateBalance (doc_transactions (loadData (run cmds None))) =
             js_sub (js_sum (amountsOf isIncome (doc_transactions (loadData (run cmds None)))))
                    (js_sum (amountsOf isExpense (doc_transactions (loadData (run cmds None)))))
         \<and> calculateBalance [] = Fin 0
         \<and> calculateBalance
               [\<lparr>txn_id = i, txn_type = ''income'', txn_amount = Num (Fin 1000),
                 txn_category = c, txn_description = d, txn_date = dt\<rparr>,
                \<lparr>txn_id = i', txn_type = ''expense'', txn_amount = Num (Fin 200),
                 txn_category = c', txn_description = d', txn_date = dt'\<rparr>] = Fin 800"
proof (intro conjI)
  show "calculateBalance ts =
          js_sub (js_sum (amountsOf isIncome ts)) (js_sum (amountsOf isExpense ts))"
    by (simp add: calculateBalance_sums amountsOf_def typed_not_income [OF assms])
  show "calculateBalance (doc_transactions (loadData (run cmds None))) =
          js_sub (js_sum (amountsOf isIncome (doc_transactions (loadData (run cmds None)))))
                 (js_sum (amountsOf isExpense (doc_transactions (loadData (run cmds None)))))"
    by (simp add: calculateBalance_sums amountsOf_def typed_not_income [OF session_types])
  show "calculateBalance [] = Fin 0"
    by (simp add: calculateBalance_def js_sub_def)
  show "calculateBalance
          [\<lparr>txn_id = i, txn_type = ''income'', txn_amount = Num (Fin 1000),
            txn_category = c, txn_description = d, txn_date = dt\<rparr>,
           \<lparr>txn_id = i', txn_type = ''expense'', txn_amount = Num (Fin 200),
            txn_category = c', txn_description = d', txn_date = dt'\<rparr>] = Fin 800"
    by (simp add: calculateBalance_def js_sub_def)
qed

theorem calculateBalance_income_minus_expense_witness:
  "calculateBalance
     [sample 1 ''income'' 1000 ''salary'', sample 2 ''expense'' 200 ''groceries'',
      sample 3 ''income'' 50 ''gift'', sample 4 ''expense'' 400 ''groceries'']
   = js_sub (js_sum [Num (Fin 1000), Num (Fin 50)]) (js_sum [Num (Fin 200), Num (Fin 400)])
   \<and> js_sub (js_sum [Num (Fin 1000), Num (Fin 50)]) (js_sum [Num (Fin 200), Num (Fin 400)])
       = Fin 450"
proof -
  let ?ts = "[sample 1 ''income'' 1000 ''salary'', sample 2 ''expense'' 200 ''groceries'',
              sample 3 ''income'' 50 ''gift'', sample 4 ''expense'' 400 ''groceries'']"
  have types: "\<forall>t\<in>set ?ts. txn_type t = ''income'' \<or> txn_type t = ''expense''"
    by (simp add: sample_def)
  have "calculateBalance ?ts =
          js_sub (js_sum (amountsOf isIncome ?ts)) (js_sum (amountsOf isExpense ?ts))"
    using calculateBalance_income_minus_expense [OF types] by blast
  moreover have "amountsOf isIncome ?ts = [Num (Fin 1000), Num (Fin 50)]"
    by (simp add: amountsOf_def isIncome_def sample_def)
  moreover have "amountsOf isExpense ?ts = [Num (Fin 200), Num (Fin 400)]"
    by (simp add: amountsOf_def isExpense_def sample_def)
  moreover have "js_sub (js_sum [Num (Fin 1000), Num (Fin 50)])
                   (js_sum [Num (Fin 200), Num (Fin 400)]) = Fin 450"
    by (simp add: js_sum_def js_sub_def)
  ultimately show ?thesis by simp
qed

text \<open>
  Claim C9. \<open>calculateBalance\<close> adds the transactions whose type is the string
  \<open>'income'\<close> and subtracts every other one, whatever its type: the balance is the
  sum of the amounts of type \<open>'income'\<close> minus the sum of all the other amounts.
\<close>

theorem calculateBalance_subtracts_every_non_income:
  "calculateBalance ts =
     js_sub (js_sum (map txn_amount (filter (\<lambda>t. txn_type t = ''income'') ts)))
            (js_sum (map txn_amount (filter (\<lambda>t. txn_type t \<noteq> ''income'') ts)))"
proof -
  have "isIncome = (\<lambda>t :: jsval transaction. txn_type t = ''income'')"
    by (simp add: fun_eq_iff isIncome_def)
  then show ?thesis
    using calculateBalance_sums [of ts] by (simp add: amountsOf_def isIncome_def)
qed

theorem calculateBalance_subtracts_every_non_income_witness:
  "calculateBalance
     [sample 1 ''income'' 1000 ''salary'', sample 2 ''Income'' 300 ''bonus'',
      sample 3 ''refund'' 50 ''shop'', sample 4 '''' 25 ''misc'']
   = js_sub (js_sum [Num (Fin 1000)]) (js_sum [Num (Fin 300), Num (Fin 50), Num (Fin 25)])
   \<and> js_sub (js_sum [Num (Fin 1000)]) (js_sum [Num (Fin 300), Num (Fin 50), Num (Fin 25)])
       = Fin 625"
  using calculateBalance_subtracts_every_non_income
          [of "[sample 1 ''income'' 1000 ''salary'', sample 2 ''Income'' 300 ''bonus'',
                sample 3 ''refund'' 50 ''shop'', sample 4 '''' 25 ''misc'']"]
  by (simp add: sample_def js_sum_def js_sub_def)


section \<open>Properties of delete\<close>

text \<open>
  Claim C5. When the identifier is the \<open>toString\<close> of no transaction's id, \<open>delete\<close>
  prints that no transaction was found and returns without writing: data.json, and
  so the transaction list, is what it was. The identifier is compared as a string:
  \<open>007\<close> does not match the id \<open>7\<close>, nor \<open>1723000000000.0\<close> the id \<open>1723000000000\<close>.
\<close>

theorem delete_unknown_id_leaves_file:
  assumes "\<forall>t\<in>set (doc_transactions (loadData file)). toString (txn_id t) \<noteq> ident"
  shows "delete_action ident file =
           \<lparr>out_file = file, out_console = [NoTransactionFound], out_exit = 0\<rparr>"
  using assms by (rule delete_action_not_found)

theorem delete_unknown_id_leaves_file_witness:
  "delete_action ''007'' ex_file =
     \<lparr>out_file = ex_file, out_console = [NoTransactionFound], out_exit = 0\<rparr>
   \<and> delete_action ''1723000000000.0'' ex_file =
     \<lparr>out_file = ex_file, out_console = [NoTransactionFound], out_exit = 0\<rparr>"
proof -
  have "\<forall>t\<in>set (doc_transactions (loadData ex_file)). toString (txn_id t) \<noteq> ''007''"
    by (simp add: ex_file_loaded sample_def toString_examples)
  moreover have "\<forall>t\<in>set (doc_transactions (loadData ex_file)).
                   toString (txn_id t) \<noteq> ''1723000000000.0''"
    by (simp add: ex_file_loaded sample_def toString_examples)
  ultimately show ?thesis
    using delete_unknown_id_leaves_file [of ex_file "''007''"]
      delete_unknown_id_leaves_file [of ex_file "''1723000000000.0''"]
    by blast
qed

text \<open>
  Claim C10. After \<open>delete\<close> the transactions of data.json are those whose id does
  not stringify to the identifier, in their order: every match is removed by the one
  call, not only the first, and the goals are kept.
\<close>

theorem delete_removes_every_match:
  "doc_transactions (loadData (out_file (delete_action ident file))) =
     filter (\<lambda>t. toString (txn_id t) \<noteq> ident) (doc_transactions (loadData file))
   \<and> (\<forall>t\<in>set (doc_transactions (loadData (out_file (delete_action ident file)))).
         toString (txn_id t) \<noteq> ident)
   \<and> doc_goals (loadData (out_file (delete_action ident file))) = doc_goals (loadData file)"
  by (simp add: delete_action_transactions delete_action_goals)

theorem delete_removes_every_match_witness:
  "doc_transactions (loadData (out_file (delete_action ''7'' ex_file))) =
     [sample 1723000000000 ''expense'' 200 ''groceries'']
   \<and> length (doc_transactions (loadData ex_file)) = 3"
  using delete_removes_every_match [of "''7''" ex_file]
  by (simp add: ex_file_loaded sample_def toString_examples)


section \<open>Validation of the amount in add and setgoal\<close>

text \<open>
  Claim C8. When the amount has no number to read, or reads as a number that is
  \<open><= 0\<close>, \<open>setgoal\<close> prints the error and returns: data.json is not written and the
  exit status is 0, where \<open>add\<close> with the same amount exits with status 1.
\<close>

theorem setgoal_invalid_amount_only_reports:
  assumes "nonNumeric amount \<or> js_le (parseFloat amount) (Fin 0)"
  shows "setgoal_action category amount file =
           \<lparr>out_file = file, out_console = [AmountMustBePositive], out_exit = 0\<rparr>
         \<and> out_exit (add_action clk type amount category description file) = 1"
  using assms
  by (simp add: setgoal_action_rejected add_action_rejected_exit parseFloat_NaN_iff)

theorem setgoal_invalid_amount_only_reports_witness:
  "setgoal_action ''groceries'' ''abc'' ex_file =
     \<lparr>out_file = ex_file, out_console = [AmountMustBePositive], out_exit = 0\<rparr>
   \<and> setgoal_action ''groceries'' ''-5'' None =
     \<lparr>out_file = None, out_console = [AmountMustBePositive], out_exit = 0\<rparr>
   \<and> setgoal_action ''groceries'' ''0'' None =
     \<lparr>out_file = None, out_console = [AmountMustBePositive], out_exit = 0\<rparr>
   \<and> out_exit (add_action \<lparr>now = 1723000000000, today = ''2024-08-07''\<rparr>
        ''expense'' ''-5'' ''groceries'' [] None) = 1"
proof -
  have "nonNumeric ''abc''"
    by (simp add: nonNumeric_def isWhiteSpace_def isDigit_def)
  moreover have "js_le (parseFloat ''-5'') (Fin 0)" "js_le (parseFloat ''0'') (Fin 0)"
    by (simp_all add: parseFloat_examples js_le_def)
  ultimately show ?thesis
    using setgoal_invalid_amount_only_reports [of "''abc''" "''groceries''" ex_file]
      setgoal_invalid_amount_only_reports [of "''-5''" "''groceries''" None
        "\<lparr>now = 1723000000000, today = ''2024-08-07''\<rparr>" "''expense''" "[]"]
      setgoal_invalid_amount_only_reports [of "''0''" "''groceries''" None]
    by simp
qed

text \<open>
  Claim C4 at the amount \<open>Infinity\<close>: it reads as a number that is not finite, and
  \<open>add\<close> does not fail. It prints that the transaction was added, exits with status
  0 and appends a transaction to data.json, whose amount is written as \<open>null\<close>.
\<close>

theorem add_accepts_infinite_amount:
  "parseFloat ''Infinity'' = PosInf
   \<and> add_action \<lparr>now = 1723000000000, today = ''2024-08-07''\<rparr>
        ''expense'' ''Infinity'' ''groceries'' [] None =
       \<lparr>out_file = Some \<lparr>doc_transactions =
            [\<lparr>txn_id = 1723000000000, txn_type = ''expense'', txn_amount = None,
              txn_category = ''groceries'', txn_description = [],
              txn_date = ''2024-08-07''\<rparr>],
            doc_goals = []\<rparr>,
        out_console = [Added ''expense'' PosInf ''groceries''],
        out_exit = 0\<rparr>"
  by (simp add: parseFloat_examples add_action_def toLowerCase_def lowerChar_def Let_def
      js_le_def loadData_def saveData_def JSON_stringify_def mapDocument_def mapAmount_def
      checkAlerts_def ownKeys_def)

text \<open>
  On the other inputs \<open>add\<close> does reject the amount: when it has no number to read,
  or reads as a number that is \<open><= 0\<close> (\<open>-Infinity\<close> included), \<open>add\<close> exits with
  status 1 and data.json is not written; with a valid type the line it prints is the
  one about the amount.
\<close>

lemma add_invalid_amount_fails:
  assumes "nonNumeric amount \<or> js_le (parseFloat amount) (Fin 0)"
  shows "out_exit (add_action clk type amount category description file) = 1
         \<and> out_file (add_action clk type amount category description file) = file
         \<and> (toLowerCase type = ''income'' \<or> toLowerCase type = ''expense'' \<longrightarrow>
              out_console (add_action clk type amount category description file)
                = [AmountMustBePositive])"
  using assms
  by (auto simp: add_action_rejected_exit add_action_bad_amount parseFloat_NaN_iff)

lemma add_invalid_amount_fails_examples:
  "add_action \<lparr>now = 1723000000000, today = ''2024-08-07''\<rparr>
     ''Expense'' ''abc'' ''groceries'' [] ex_file =
     \<lparr>out_file = ex_file, out_console = [AmountMustBePositive], out_exit = 1\<rparr>
   \<and> add_action \<lparr>now = 1723000000000, today = ''2024-08-07''\<rparr>
     ''income'' ''-5'' ''salary'' [] None =
     \<lparr>out_file = None, out_console = [AmountMustBePositive], out_exit = 1\<rparr>"
proof -
  have "nonNumeric ''abc''"
    by (simp add: nonNumeric_def isWhiteSpace_def isDigit_def)
  moreover have "js_le (parseFloat ''-5'') (Fin 0)"
    by (simp add: parseFloat_examples js_le_def)
  moreover have "toLowerCase ''Expense'' = ''expense''" "toLowerCase ''income'' = ''income''"
    by (simp_all add: toLowerCase_def lowerChar_def)
  ultimately show ?thesis
    using add_invalid_amount_fails [of "''abc''"
        "\<lparr>now = 1723000000000, today = ''2024-08-07''\<rparr>" "''Expense''" "''groceries''" "[]" ex_file]
      add_invalid_amount_fails [of "''-5''"
        "\<lparr>now = 1723000000000, today = ''2024-08-07''\<rparr>" "''income''" "''salary''" "[]" None]
    by (simp add: outcome.equality)
qed


section \<open>The invariant of the ledger\<close>

lemma sorted_wrt_drop_middle:
  "sorted_wrt P (xs @ y # ys) \<Longrightarrow> sorted_wrt P (xs @ ys)"
  by (auto simp: sorted_wrt_append)

lemma sorted_wrt_filter_prefix:
  "sorted_wrt P (xs @ ys) \<Longrightarrow> sorted_wrt P (filter Q xs @ ys)"
  by (auto simp: sorted_wrt_append sorted_wrt_filter)

lemma exec_step:
  assumes valid: "\<forall>t\<in>set (doc_transactions (loadData file)). validTransaction t"
    and incr: "sorted_wrt (<) (map txn_id (doc_transactions (loadData file)) @ readings (c # cs))"
    and finite: "\<forall>a\<in>set (acceptedAmounts (c # cs)). parseFloat a \<noteq> PosInf"
  shows "(\<forall>t\<in>set (doc_transactions (loadData (out_file (exec c file)))). validTransaction t)
         \<and> sorted_wrt (<)
             (map txn_id (doc_transactions (loadData (out_file (exec c file)))) @ readings cs)"
proof (cases c)
  case (Add clk type amount category description)
  show ?thesis
  proof (cases "accepted type amount")
    case True
    then have ty: "toLowerCase type = ''income'' \<or> toLowerCase type = ''expense''"
      and ok: "\<not> (isNaN (parseFloat amount) \<or> js_le (parseFloat amount) (Fin 0))"
      by (simp_all add: accepted_def)
    have "parseFloat amount \<noteq> PosInf" using finite Add True by simp
    with ok obtain q where q: "0 < q" "parseFloat amount = Fin q"
      using accepted_amount_positive by blast
    show ?thesis
      using valid incr ty q True
      by (auto simp: Add add_action_transactions [OF ty ok] validTransaction_def)
  next
    case False
    then have "\<not> ((toLowerCase type = ''income'' \<or> toLowerCase type = ''expense'')
             \<and> \<not> (isNaN (parseFloat amount) \<or> js_le (parseFloat amount) (Fin 0)))"
      by (simp add: accepted_def)
    then have "out_file (add_action clk type amount category description file) = file"
      by (rule add_action_rejected_file)
    then show ?thesis
      using valid incr False by (simp add: Add)
  qed
next
  case (Delete ident)
  have "sorted_wrt (<)
          (filter (\<lambda>i. toString i \<noteq> ident) (map txn_id (doc_transactions (loadData file)))
           @ readings cs)"
    using incr Delete by (auto intro: sorted_wrt_filter_prefix)
  then show ?thesis
    using valid by (simp add: Delete delete_action_transactions filter_map comp_def)
next
  case (SetGoal category amount)
  then show ?thesis
    using valid incr by (simp add: setgoal_action_transactions)
qed

lemma run_invariant:
  assumes "\<forall>t\<in>set (doc_transactions (loadData f)). validTransaction t"
    and "sorted_wrt (<) (map txn_id (doc_transactions (loadData f)) @ readings cs)"
    and "\<forall>a\<in>set (acceptedAmounts cs). parseFloat a \<noteq> PosInf"
  shows "(\<forall>t\<in>set (doc_transactions (loadData (run cs f))). validTransaction t)
         \<and> sorted_wrt (<) (map txn_id (doc_transactions (loadData (run cs f))))"
  using assms
proof (induction cs arbitrary: f)
  case Nil
  then show ?case by simp
next
  case (Cons c cs)
  have step: "(\<forall>t\<in>set (doc_transactions (loadData (out_file (exec c f)))). validTransaction t)
         \<and> sorted_wrt (<)
             (map txn_id (doc_transactions (loadData (out_file (exec c f)))) @ readings cs)"
    using Cons.prems by (intro exec_step) simp_all
  have "\<forall>a\<in>set (acceptedAmounts cs). parseFloat a \<noteq> PosInf"
    using Cons.prems(3) by (cases c) (simp_all split: if_splits)
  with step show ?case
    using Cons.IH [of "out_file (exec c f)"] by simp
qed

lemma strictly_increasing_distinct:
  "sorted_wrt (<) (xs :: int list) \<Longrightarrow> distinct xs"
  by (induction xs) auto

text \<open>
  Claim C3, amended. After any sequence of \<open>add\<close>, \<open>delete\<close> and \<open>setgoal\<close> commands
  run from the empty store, in which the clock readings of the successive \<open>add\<close>
  commands strictly increase and no amount reads as \<open>+Infinity\<close>, every transaction of
  data.json has a positive finite amount and the type \<open>'income'\<close> or \<open>'expense'\<close>,
  and the ids strictly increase along the list (the order of creation), so they are
  pairwise distinct.
\<close>

theorem ledger_invariant:
  assumes "sorted_wrt (<) (readings cmds)"
    and "\<forall>a\<in>set (acceptedAmounts cmds). parseFloat a \<noteq> PosInf"
  shows "(\<forall>t\<in>set (doc_transactions (loadData (run cmds None))).
            (\<exists>q. 0 < q \<and> txn_amount t = Num (Fin q))
            \<and> (txn_type t = ''income'' \<or> txn_type t = ''expense''))
         \<and> sorted_wrt (<) (map txn_id (doc_transactions (loadData (run cmds None))))
         \<and> distinct (map txn_id (doc_transactions (loadData (run cmds None))))"
proof -
  have "(\<forall>t\<in>set (doc_transactions (loadData (run cmds None))). validTransaction t)
        \<and> sorted_wrt (<) (map txn_id (doc_transactions (loadData (run cmds None))))"
    using assms by (intro run_invariant) (simp_all add: loadData_def)
  then show ?thesis
    by (auto simp: validTransaction_def dest: strictly_increasing_distinct)
qed

theorem ledger_invariant_witness:
  "readings ex_session = [1723000000000, 1723000000050, 1723000000150]
   \<and> map txn_id (doc_transactions (loadData (run ex_session None)))
       = [1723000000000, 1723000000150]
   \<and> map txn_amount (doc_transactions (loadData (run ex_session None)))
       = [Num (Fin 1000), Num (Fin 400)]
   \<and> sorted_wrt (<) (map txn_id (doc_transactions (loadData (run ex_session None))))
   \<and> distinct (map txn_id (doc_transactions (loadData (run ex_session None))))"
proof -
  have checks: "accepted ''income'' ''1000''" "accepted ''Expense'' ''200''"
    "\<not> accepted ''expense'' ''abc''" "accepted ''expense'' ''400''"
    by (simp_all add: accepted_def toLowerCase_def lowerChar_def parseFloat_def
        isWhiteSpace_def isDigit_def digitsToNat_def exponentPart_def pow10_def toDouble_def
        Let_def js_le_def)
  have incr: "sorted_wrt (<) (readings ex_session)"
    by (simp add: ex_session_def ex_clock_def checks)
  have finite: "\<forall>a\<in>set (acceptedAmounts ex_session). parseFloat a \<noteq> PosInf"
    by (simp add: ex_session_def checks parseFloat_def isWhiteSpace_def isDigit_def
        digitsToNat_def exponentPart_def pow10_def toDouble_def Let_def)
  have "readings ex_session = [1723000000000, 1723000000050, 1723000000150]"
    by (simp add: ex_session_def ex_clock_def checks)
  moreover have "map txn_id (doc_transactions (loadData (run ex_session None)))
       = [1723000000000, 1723000000150]"
    "map txn_amount (doc_transactions (loadData (run ex_session None)))
       = [Num (Fin 1000), Num (Fin 400)]"
    by (simp_all add: ex_session_result loadData_def JSON_parse_def)
  ultimately show ?thesis
    using ledger_invariant [OF incr finite] by simp
qed

text \<open>
  The claim C3 as stated fails: two \<open>add\<close> commands that read the same clock value
  create two transactions with the same id, and an amount \<open>Infinity\<close> is stored as
  \<open>null\<close>, which is not a positive amount.
\<close>

theorem same_clock_reading_repeats_id:
  "map txn_id (doc_transactions (loadData (run
      [Add (ex_clock 1723000000000) ''income'' ''1000'' ''salary'' [],
       Add (ex_clock 1723000000000) ''expense'' ''200'' ''groceries'' []] None)))
     = [1723000000000, 1723000000000]
   \<and> map txn_amount (doc_transactions (loadData (run
      [Add (ex_clock 1723000000000) ''expense'' ''Infinity'' ''groceries'' []] None)))
     = [Null]"
  by (simp add: ex_clock_def add_action_def toLowerCase_def lowerChar_def Let_def
      parseFloat_def isWhiteSpace_def isDigit_def digitsToNat_def exponentPart_def pow10_def
      toDouble_def js_le_def loadData_def saveData_def JSON_stringify_def JSON_parse_def
      mapDocument_def mapAmount_def)


section \<open>setgoal on one key, twice\<close>

text \<open>
  Claim C7 at the key \<open>__proto__\<close>: \<open>setgoal __proto__ 100\<close> and then
  \<open>setgoal __proto__ 200\<close> each print that the goal was set and write data.json, but
  the goals stay empty: no value is stored at the key.
\<close>

theorem setgoal_proto_key_stores_nothing:
  "setgoal_action ''__proto__'' ''100'' None =
     \<lparr>out_file = Some \<lparr>doc_transactions = [], doc_goals = []\<rparr>,
      out_console = [GoalSet ''__proto__'' (Fin 100)], out_exit = 0\<rparr>
   \<and> setgoal_action ''__proto__'' ''200'' (Some \<lparr>doc_transactions = [], doc_goals = []\<rparr>) =
     \<lparr>out_file = Some \<lparr>doc_transactions = [], doc_goals = []\<rparr>,
      out_console = [GoalSet ''__proto__'' (Fin 200)], out_exit = 0\<rparr>
   \<and> map_of (doc_goals (loadData (Some \<lparr>doc_transactions = [], doc_goals = []\<rparr>)))
        ''__proto__'' = None"
  by (simp add: setgoal_action_def Let_def parseFloat_def isWhiteSpace_def isDigit_def
      digitsToNat_def exponentPart_def pow10_def toDouble_def js_le_def loadData_def
      saveData_def JSON_stringify_def JSON_parse_def mapDocument_def objSet_def)

text \<open>
  For every other key the goal is overwritten: after \<open>setgoal k a\<close> and \<open>setgoal k b\<close>
  with positive finite amounts the value at \<open>k\<close> is \<open>b\<close>, the other keys keep their
  values, and the values stay positive if they were.
\<close>

lemma setgoal_twice_overwrites:
  assumes key: "k \<noteq> ''__proto__''"
    and a: "parseFloat a = Fin qa" "0 < qa"
    and b: "parseFloat b = Fin qb" "0 < qb"
  shows "map_of (doc_goals (loadData (out_file
            (setgoal_action k b (out_file (setgoal_action k a file)))))) k
           = Some (Num (Fin qb))"
    and "k' \<noteq> k \<Longrightarrow>
         map_of (doc_goals (loadData (out_file
            (setgoal_action k b (out_file (setgoal_action k a file)))))) k'
           = map_of (doc_goals (loadData file)) k'"
    and "(\<And>k' v. (k', v) \<in> set (doc_goals (loadData file)) \<Longrightarrow> \<exists>q. 0 < q \<and> v = Num (Fin q))
         \<Longrightarrow> (k', v) \<in> set (doc_goals (loadData (out_file
            (setgoal_action k b (out_file (setgoal_action k a file))))))
         \<Longrightarrow> \<exists>q. 0 < q \<and> v = Num (Fin q)"
proof -
  let ?g = "doc_goals (loadData file)"
  have goals: "doc_goals (loadData (out_file
            (setgoal_action k b (out_file (setgoal_action k a file)))))
        = objSet (objSet ?g k (Num (Fin qa))) k (Num (Fin qb))"
    by (simp add: setgoal_action_goals [OF a] setgoal_action_goals [OF b])
  show "map_of (doc_goals (loadData (out_file
            (setgoal_action k b (out_file (setgoal_action k a file)))))) k
           = Some (Num (Fin qb))"
    using key by (simp add: goals map_of_objSet)
  show "map_of (doc_goals (loadData (out_file
            (setgoal_action k b (out_file (setgoal_action k a file)))))) k'
           = map_of (doc_goals (loadData file)) k'" if "k' \<noteq> k"
    using key that by (simp add: goals map_of_objSet)
  show "\<exists>q. 0 < q \<and> v = Num (Fin q)"
    if pos: "\<And>k' v. (k', v) \<in> set (doc_goals (loadData file)) \<Longrightarrow> \<exists>q. 0 < q \<and> v = Num (Fin q)"
      and mem: "(k', v) \<in> set (doc_goals (loadData (out_file
            (setgoal_action k b (out_file (setgoal_action k a file))))))"
  proof -
    from mem have "(k', v) \<in> set (objSet (objSet ?g k (Num (Fin qa))) k (Num (Fin qb)))"
      by (simp add: goals)
    then have "(k', v) = (k, Num (Fin qb)) \<or> (k', v) = (k, Num (Fin qa)) \<or> (k', v) \<in> set ?g"
      using set_objSet_subset [of "objSet ?g k (Num (Fin qa))" k "Num (Fin qb)"]
        set_objSet_subset [of ?g k "Num (Fin qa)"] by blast
    then show ?thesis using a b pos by blast
  qed
qed


section \<open>Properties of checkAlerts\<close>

lemma proto_is_inherited: "''__proto__'' \<in> set objectPrototypeNames"
  by (simp add: objectPrototypeNames_def)

lemma total_not_inherited: "''total'' \<notin> set objectPrototypeNames"
  by (simp add: objectPrototypeNames_def)

lemma orZero_idem [simp]: "orZero (Own (orZero l)) = orZero l"
  by (cases l rule: orZero.cases) (simp_all add: truthy_def)

lemma spent_after_set:
  "orZero (objGet (objSet s c0 (plusAmount (orZero (objGet s c0)) a)) c) =
     (if c = c0 then orZero (Own (plusAmount (orZero (objGet s c0)) a))
      else orZero (objGet s c))"
proof (cases "c0 = ''__proto__'' \<and> map_of s c0 = None")
  case True
  then have "objGet s c0 = Inherited"
    using proto_is_inherited by (auto simp: objGet_def)
  with True show ?thesis by (simp add: objGet_objSet)
next
  case False
  then show ?thesis by (auto simp: objGet_objSet)
qed

lemma spendLoop_category:
  "orZero (objGet (fst (spendLoop ts s tot)) c) =
     foldl (\<lambda>v a. orZero (Own (plusAmount v a))) (orZero (objGet s c))
       (amountsOf (\<lambda>t. isExpense t \<and> txn_category t = c) ts)"
proof (induction ts arbitrary: s tot)
  case Nil
  then show ?case by (simp add: amountsOf_def)
next
  case (Cons t ts)
  show ?case
  proof (cases "txn_type t = ''expense''")
    case True
    then show ?thesis
      by (simp add: Cons.IH spent_after_set amountsOf_def isExpense_def)
  next
    case False
    then show ?thesis by (simp add: Cons.IH amountsOf_def isExpense_def)
  qed
qed

lemma spendLoop_total:
  "snd (spendLoop ts s tot) =
     foldl (\<lambda>x a. js_add x (toNumber a)) tot (amountsOf isExpense ts)"
  by (induction ts arbitrary: s tot) (simp_all add: amountsOf_def isExpense_def)

lemma plainNumber_add: "plainNumber x \<Longrightarrow> plainNumber y \<Longrightarrow> plainNumber (js_add x y)"
  by (cases x; cases y) (simp_all add: plainNumber_def)

lemma orZero_plain: "plainNumber n \<Longrightarrow> orZero (Own (Spent n)) = Spent n"
  by (auto simp: plainNumber_def truthy_def)

lemma fold_plain:
  assumes "plainNumber x" "\<forall>a\<in>set as. plainNumber (toNumber a)"
  shows "foldl (\<lambda>v a. orZero (Own (plusAmount v a))) (Spent x) as
           = Spent (foldl (\<lambda>x a. js_add x (toNumber a)) x as)"
  using assms
  by (induction as arbitrary: x) (simp_all add: orZero_plain plainNumber_add del: orZero.simps)

lemma fold_garbled:
  "foldl (\<lambda>v a. orZero (Own (plusAmount v a))) Garbled as = Garbled"
  by (induction as) simp_all

lemma spent_of_category:
  assumes "plainAmounts ts"
  shows "orZero (objGet (fst (spendLoop ts [] (Fin 0))) c) =
           (if c \<in> set objectPrototypeNames then Garbled
            else Spent (js_sum (amountsOf (\<lambda>t. isExpense t \<and> txn_category t = c) ts)))"
proof -
  have plain: "\<forall>a\<in>set (amountsOf (\<lambda>t. isExpense t \<and> txn_category t = c) ts).
                 plainNumber (toNumber a)"
    using assms by (auto simp: plainAmounts_def amountsOf_def)
  have zero: "plainNumber (Fin 0)" by (simp add: plainNumber_def)
  have start: "orZero (objGet ([] :: spentval obj) c) =
                 (if c \<in> set objectPrototypeNames then Garbled else Spent (Fin 0))"
    by (simp add: objGet_def)
  show ?thesis
    unfolding spendLoop_category start
    by (simp add: fold_garbled fold_plain [OF zero plain] js_sum_def)
qed

lemma total_of_expenses:
  "snd (spendLoop ts [] (Fin 0)) = js_sum (amountsOf isExpense ts)"
  by (simp add: spendLoop_total js_sum_def)

lemma alertsLoop_Cons:
  "alertsLoop (k # ks) goals s tot = alertsLoop [k] goals s tot @ alertsLoop ks goals s tot"
  by simp

lemma alertsLoop_single:
  assumes "plainAmounts ts"
  shows "alertsLoop [k] goals (fst (spendLoop ts [] (Fin 0))) (snd (spendLoop ts [] (Fin 0)))
           = alertsFor ts goals k"
proof (cases "map_of goals k")
  case None
  then show ?thesis
    by (simp add: alertsFor_def objGet_def)
next
  case (Some goal)
  then have own: "objGet goals k = Own goal"
    by (simp add: objGet_def)
  show ?thesis
  proof (cases "k = ''total''")
    case True
    with Some own show ?thesis
      using total_not_inherited
      by (simp add: alertsFor_def total_of_expenses spendOf_def mkAlert_def)
  next
    case False
    with Some own show ?thesis
      by (simp add: alertsFor_def spent_of_category [OF assms] spendOf_def mkAlert_def)
  qed
qed

lemma alertsLoop_concat:
  assumes "plainAmounts ts"
  shows "alertsLoop ks goals (fst (spendLoop ts [] (Fin 0))) (snd (spendLoop ts [] (Fin 0)))
           = concat (map (alertsFor ts goals) ks)"
proof (induction ks)
  case Nil
  then show ?case by simp
next
  case (Cons k ks)
  show ?case
    by (subst alertsLoop_Cons)
      (simp add: alertsLoop_single [OF assms] Cons.IH del: alertsLoop.simps)
qed

lemma checkAlerts_concat:
  assumes "plainAmounts ts"
  shows "checkAlerts ts goals = concat (map (alertsFor ts goals) (ownKeys goals))"
  using alertsLoop_concat [OF assms, of "ownKeys goals" goals]
  by (simp add: checkAlerts_def split_beta)

lemma alertKey_mkAlert [simp]: "alertKey (mkAlert k n g) = k"
  by (simp add: mkAlert_def)

lemma alertsFor_keys:
  assumes "k \<in> set (map fst goals)" "k \<notin> set objectPrototypeNames"
  shows "map alertKey (alertsFor ts goals k) = (if exceeded ts goals k then [k] else [])"
proof -
  from assms(1) obtain goal where "map_of goals k = Some goal"
    by (metis image_set map_of_eq_None_iff not_Some_eq)
  with assms(2) show ?thesis
    by (simp add: alertsFor_def exceeded_def)
qed

lemma alert_keys_filter:
  assumes "set ks \<subseteq> set (map fst goals)" "set ks \<inter> set objectPrototypeNames = {}"
  shows "map alertKey (concat (map (alertsFor ts goals) ks)) = filter (exceeded ts goals) ks"
  using assms
proof (induction ks)
  case Nil
  then show ?case by simp
next
  case (Cons k ks)
  then have "k \<in> set (map fst goals)" "k \<notin> set objectPrototypeNames"
    by auto
  then have "map alertKey (alertsFor ts goals k) = (if exceeded ts goals k then [k] else [])"
    by (rule alertsFor_keys)
  with Cons show ?case by simp
qed

lemma alert_cases:
  assumes "plainAmounts ts" "a \<in> set (checkAlerts ts goals)"
  shows "\<exists>goal. map_of goals (alertKey a) = Some goal
           \<and> alertKey a \<notin> set objectPrototypeNames
           \<and> js_gt (spendOf ts (alertKey a)) (toNumber goal)
           \<and> a = mkAlert (alertKey a) (spendOf ts (alertKey a)) goal"
proof -
  from assms obtain k where "a \<in> set (alertsFor ts goals k)"
    by (auto simp: checkAlerts_concat)
  then show ?thesis
    by (cases "map_of goals k") (auto simp: alertsFor_def split: if_splits)
qed

text \<open>
  The lists \<open>checkAlerts\<close> is called on hold such amounts: what is read back from
  data.json, and an amount that passed the check of \<open>add\<close>.
\<close>

lemma loaded_amounts_plain: "plainAmounts (doc_transactions (loadData file))"
proof -
  have "plainNumber (toNumber (txn_amount t))"
    if "t \<in> set (doc_transactions (loadData file))" for t
  proof -
    have plain: "plainNumber (toNumber (fromJSON j))" for j
      by (cases j) (simp_all add: plainNumber_def)
    have "fromJSON (toJSON (txn_amount t)) = txn_amount t"
      using that by (rule loaded_amount_storable)
    with plain show ?thesis by metis
  qed
  then show ?thesis by (simp add: plainAmounts_def)
qed

lemma accepted_amount_plain:
  assumes "\<not> (isNaN a \<or> js_le a (Fin 0))"
  shows "plainNumber a"
  using assms by (cases a) (auto simp: plainNumber_def js_le_def)

text \<open>
  For a goal key that is not the name of a member of \<open>Object.prototype\<close>, an alert
  is pushed if and only if the spend strictly exceeds the goal, and it carries the
  key, the spend and the goal.
\<close>

lemma checkAlerts_alert_iff:
  assumes plain: "plainAmounts ts"
    and goal: "map_of goals k = Some goal"
    and own: "k \<notin> set objectPrototypeNames"
  shows "mkAlert k (spendOf ts k) goal \<in> set (checkAlerts ts goals)
           \<longleftrightarrow> js_gt (spendOf ts k) (toNumber goal)"
    and "(\<exists>a\<in>set (checkAlerts ts goals). alertKey a = k)
           \<longleftrightarrow> js_gt (spendOf ts k) (toNumber goal)"
proof -
  have key: "k \<in> set (ownKeys goals)"
    using goal by (auto simp: set_ownKeys dest: map_of_SomeD intro: rev_image_eqI)
  have one: "alertsFor ts goals k =
               (if js_gt (spendOf ts k) (toNumber goal) then [mkAlert k (spendOf ts k) goal]
                else [])"
    using goal own by (simp add: alertsFor_def)
  show "mkAlert k (spendOf ts k) goal \<in> set (checkAlerts ts goals)
           \<longleftrightarrow> js_gt (spendOf ts k) (toNumber goal)"
  proof
    assume "mkAlert k (spendOf ts k) goal \<in> set (checkAlerts ts goals)"
    from alert_cases [OF plain this] goal
    show "js_gt (spendOf ts k) (toNumber goal)" by simp
  next
    assume "js_gt (spendOf ts k) (toNumber goal)"
    with one have "mkAlert k (spendOf ts k) goal \<in> set (alertsFor ts goals k)"
      by simp
    with key show "mkAlert k (spendOf ts k) goal \<in> set (checkAlerts ts goals)"
      unfolding checkAlerts_concat [OF plain] by auto
  qed
  then show "(\<exists>a\<in>set (checkAlerts ts goals). alertKey a = k)
           \<longleftrightarrow> js_gt (spendOf ts k) (toNumber goal)"
    using alert_cases [OF plain] goal by (metis alertKey_mkAlert option.inject)
qed

text \<open>
  Claim C1 at the category \<open>constructor\<close>: 1000 was spent against a goal of 5 and
  \<open>checkAlerts\<close> returns no alert, where the same amounts in the category
  \<open>groceries\<close> give one, and the \<open>total\<close> goal of the same list gives one. The
  commands \<open>setgoal constructor 5\<close> and \<open>add expense 1000 constructor\<close> get there:
  \<open>add\<close> prints no alert.
\<close>

theorem checkAlerts_misses_inherited_name:
  "checkAlerts [sample 1 ''expense'' 1000 ''constructor''] [(''constructor'', Num (Fin 5))] = []
   \<and> spendOf [sample 1 ''expense'' 1000 ''constructor''] ''constructor'' = Fin 1000
   \<and> js_gt (Fin 1000) (toNumber (Num (Fin 5)))
   \<and> checkAlerts [sample 1 ''expense'' 1000 ''groceries''] [(''groceries'', Num (Fin 5))]
       = [CategoryAlert ''groceries'' (Fin 1000) (Num (Fin 5))]
   \<and> checkAlerts [sample 1 ''expense'' 1000 ''constructor'']
        [(''constructor'', Num (Fin 5)), (''total'', Num (Fin 5))]
       = [TotalAlert (Fin 1000) (Num (Fin 5))]
   \<and> out_console (add_action (ex_clock 1723000000000) ''expense'' ''1000'' ''constructor'' []
        (out_file (setgoal_action ''constructor'' ''5'' None)))
       = [Added ''expense'' (Fin 1000) ''constructor'']"
proof -
  have goal_set: "out_file (setgoal_action ''constructor'' ''5'' None)
                    = Some \<lparr>doc_transactions = [], doc_goals = [(''constructor'', Some 5)]\<rparr>"
    by (simp add: setgoal_action_def Let_def parseFloat_def isWhiteSpace_def isDigit_def
        digitsToNat_def exponentPart_def pow10_def toDouble_def js_le_def loadData_def
        saveData_def JSON_stringify_def JSON_parse_def mapDocument_def objSet_def)
  have "out_console (add_action (ex_clock 1723000000000) ''expense'' ''1000'' ''constructor'' []
          (out_file (setgoal_action ''constructor'' ''5'' None)))
        = [Added ''expense'' (Fin 1000) ''constructor'']"
    unfolding goal_set
    by (simp add: ex_clock_def add_action_def toLowerCase_def lowerChar_def Let_def
        parseFloat_def isWhiteSpace_def isDigit_def digitsToNat_def exponentPart_def
        pow10_def toDouble_def js_le_def loadData_def JSON_parse_def mapDocument_def
        mapAmount_def checkAlerts_eval)
  then show ?thesis
    by (simp add: checkAlerts_eval spendOf_def js_sum_def amountsOf_def isExpense_def)
qed

text \<open>
  Claim C6, amended. When no goal key is the name of a member of \<open>Object.prototype\<close>
  (and no amount is NaN or \<open>-Infinity\<close>, as in every list the program builds),
  the keys of the alerts are the goals whose spend strictly exceeds their value, in
  the order \<open>for ... in\<close> visits the goals: first the keys that are array indices, in
  ascending numeric order, then the other keys in the order the goals were first set
  (a new key is created last, a key set again keeps its place). No alert appears for
  a goal that is not exceeded.
\<close>

theorem alerts_follow_enumeration_order:
  assumes "plainAmounts ts"
    and "set (map fst goals) \<inter> set objectPrototypeNames = {}"
  shows "map alertKey (checkAlerts ts goals) =
           filter (exceeded ts goals)
             (sort_key digitsToNat (filter isArrayIndex (map fst goals)))
           @ filter (exceeded ts goals) (filter (\<lambda>k. \<not> isArrayIndex k) (map fst goals))
         \<and> map fst (objSet goals k v) =
             (if k \<in> set (map fst goals) \<or> k = ''__proto__'' then map fst goals
              else map fst goals @ [k])"
proof
  have "map alertKey (checkAlerts ts goals) = filter (exceeded ts goals) (ownKeys goals)"
    using assms by (simp add: checkAlerts_concat alert_keys_filter set_ownKeys)
  then show "map alertKey (checkAlerts ts goals) =
           filter (exceeded ts goals)
             (sort_key digitsToNat (filter isArrayIndex (map fst goals)))
           @ filter (exceeded ts goals) (filter (\<lambda>k. \<not> isArrayIndex k) (map fst goals))"
    by (simp add: ownKeys_def)
  show "map fst (objSet goals k v) =
             (if k \<in> set (map fst goals) \<or> k = ''__proto__'' then map fst goals
              else map fst goals @ [k])"
    by (rule keys_objSet)
qed

theorem alerts_follow_enumeration_order_witness:
  "map alertKey (checkAlerts ex_expenses ex_goals) = [''2'', ''10'', ''groceries'', ''total'']
   \<and> map fst ex_goals = [''groceries'', ''10'', ''rent'', ''total'', ''2'']
   \<and> map fst (objSet ex_goals ''travel'' (Num (Fin 50)))
       = [''groceries'', ''10'', ''rent'', ''total'', ''2'', ''travel'']"
proof -
  have plain: "plainAmounts ex_expenses"
    by (simp add: plainAmounts_def plainNumber_def ex_expenses_def sample_def)
  have names: "set (map fst ex_goals) \<inter> set objectPrototypeNames = {}"
    by (simp add: ex_goals_def objectPrototypeNames_def)
  have idx: "sort_key digitsToNat (filter isArrayIndex (map fst ex_goals)) = [''2'', ''10'']"
    "filter (\<lambda>k. \<not> isArrayIndex k) (map fst ex_goals) = [''groceries'', ''rent'', ''total'']"
    by (simp_all add: ex_goals_def isArrayIndex_def isDigit_def digitsToNat_def)
  have exc: "exceeded ex_expenses ex_goals ''2''" "exceeded ex_expenses ex_goals ''10''"
    "exceeded ex_expenses ex_goals ''groceries''" "\<not> exceeded ex_expenses ex_goals ''rent''"
    "exceeded ex_expenses ex_goals ''total''"
    by (simp_all add: exceeded_def ex_goals_def ex_expenses_def spendOf_def js_sum_def
        amountsOf_def isExpense_def sample_def js_gt_def)
  show ?thesis
    using alerts_follow_enumeration_order [OF plain names, of "''travel''" "Num (Fin 50)"]
    by (simp add: idx exc) (simp add: ex_goals_def)
qed

text \<open>
  The claim C6 as stated fails: with the goal \<open>b\<close> set before the goal \<open>1\<close> and both
  exceeded, the alert for \<open>1\<close> is printed before the alert for \<open>b\<close>.
\<close>

theorem alerts_not_in_insertion_order:
  "out_console (add_action (ex_clock 1723000000050) ''expense'' ''10'' ''1'' []
       (run [SetGoal ''b'' ''5'', SetGoal ''1'' ''5'',
             Add (ex_clock 1723000000000) ''expense'' ''10'' ''b'' []] None))
     = [Added ''expense'' (Fin 10) ''1'',
        Alert (CategoryAlert ''1'' (Fin 10) (Num (Fin 5))),
        Alert (CategoryAlert ''b'' (Fin 10) (Num (Fin 5)))]"
proof -
  have written: "run [SetGoal ''b'' ''5'', SetGoal ''1'' ''5'',
       Add (ex_clock 1723000000000) ''expense'' ''10'' ''b'' []] None
     = Some \<lparr>doc_transactions =
         [\<lparr>txn_id = 1723000000000, txn_type = ''expense'', txn_amount = Some 10,
           txn_category = ''b'', txn_description = [], txn_date = ''2024-08-07''\<rparr>],
         doc_goals = [(''b'', Some 5), (''1'', Some 5)]\<rparr>"
    by (simp add: ex_clock_def add_action_def setgoal_action_def toLowerCase_def
        lowerChar_def Let_def parseFloat_def isWhiteSpace_def isDigit_def digitsToNat_def
        exponentPart_def pow10_def toDouble_def js_le_def loadData_def saveData_def
        JSON_stringify_def JSON_parse_def mapDocument_def mapAmount_def objSet_def)
  show ?thesis
    unfolding written
    by (simp add: ex_clock_def add_action_def toLowerCase_def
        lowerChar_def Let_def parseFloat_def isWhiteSpace_def isDigit_def digitsToNat_def
        exponentPart_def pow10_def toDouble_def js_le_def loadData_def saveData_def
        JSON_stringify_def JSON_parse_def mapDocument_def mapAmount_def checkAlerts_eval)
qed

end
